theory Spec2Isabelle
  imports Complex_Main "HOL-Library.Sublist"
begin

section \<open>Data model\<close>

text \<open>
  Modelled from the spec: the node and edge records and the scaling bounds, which
  \<open>parse_dataframe\<close> builds (its code is not among the sources), as section 3 of the
  specification describes them.

  Jaal keeps a graph as a dict \<open>{'nodes': [...], 'edges': [...]}\<close> of node and edge dicts.
  A node dict has the keys \<open>id\<close>, \<open>label\<close>, \<open>size\<close>, \<open>color\<close>, possibly \<open>hidden\<close>
  (written by the search), and the columns of the node table; an edge dict has \<open>id\<close>,
  \<open>from\<close>, \<open>to\<close>, \<open>width\<close>, the nested \<open>color\<close> dict and the columns of the edge table.
  Identifiers are strings. The keys every record has are record fields, the remaining columns
  are an association list from column name to value. Numbers are Python numbers, taken
  exact: dividing by zero raises.
\<close>

datatype pyval = PStr string | PNum rat | PBool bool | PDict "(string \<times> string) list"

datatype exn =
    KeyError pyval
  | ZeroDivisionError
  | TypeError
  | UndefinedVariableError string
  | QueryError string

datatype event = Print string | PrintExn exn | PrintExc exn

record node =
  node_id :: string
  node_label :: string
  node_size :: rat
  node_color :: string
  node_hidden :: "bool option"
  node_attrs :: "(string \<times> pyval) list"

record edge =
  edge_id :: string
  edge_from :: string
  edge_to :: string
  edge_width :: rat
  edge_color :: string
  edge_attrs :: "(string \<times> pyval) list"

record ('n, 'e) graph =
  nodes :: "'n list"
  edges :: "'e list"

text \<open>\<open>scaling_vars['node'][attr]\<close> and \<open>scaling_vars['edge'][attr]\<close>: the pair (min, max).\<close>

record scaling =
  sv_node :: "(string \<times> rat \<times> rat) list"
  sv_edge :: "(string \<times> rat \<times> rat) list"

text \<open>The attributes of \<open>Jaal.__init__\<close>, and what the handlers print.\<close>

record jaal =
  data :: "(node, edge) graph"
  scaling_vars :: scaling
  filtered_data :: "(node, edge) graph"
  node_value_color_mapping :: "(pyval option \<times> string) list"
  edge_value_color_mapping :: "(pyval option \<times> string) list"
  add_related_entities :: bool
  include_related_org :: bool
  include_related_wf :: bool
  include_related_tables :: bool
  out :: "event list"

text \<open>
  What the class takes from outside this file: the constants and the colour generator of the
  layout module, and the expression evaluator of \<open>DataFrame.query\<close>. The evaluator gets
  the expression and the rows of the table; it yields \<open>None\<close> when the evaluation raises and
  the boolean mask of the selected rows otherwise.
\<close>

record env =
  DEFAULT_COLOR :: string
  DEFAULT_NODE_SIZE :: rat
  DEFAULT_EDGE_SIZE :: rat
  get_distinct_colors :: "nat \<Rightarrow> string list"
  query_nodes :: "string \<Rightarrow> node list \<Rightarrow> bool list option"
  query_edges :: "string \<Rightarrow> edge list \<Rightarrow> bool list option"

definition init :: "(node, edge) graph \<Rightarrow> scaling \<Rightarrow> jaal" where
  "init parsed_data parsed_scaling_vars =
     \<lparr>data = parsed_data, scaling_vars = parsed_scaling_vars, filtered_data = parsed_data,
      node_value_color_mapping = [], edge_value_color_mapping = [],
      add_related_entities = True, include_related_org = True, include_related_wf = True,
      include_related_tables = True, out = [Print ''Parsing the data...'', Print ''Done'']\<rparr>"

section \<open>Strings\<close>

text \<open>\<open>pat in s\<close> and \<open>Series.str.contains(pat)\<close> for a pattern without regex operators.\<close>

fun str_contains :: "string \<Rightarrow> string \<Rightarrow> bool" where
  "str_contains [] pat = (pat = [])"
| "str_contains (c # cs) pat = (prefix pat (c # cs) \<or> str_contains cs pat)"



section \<open>Search\<close>




section \<open>Related nodes\<close>

text \<open>
  \<open>pd.DataFrame(records)\<close> of the edge dicts. A frame built from an empty list has no
  columns, and a query naming a column of it raises; dropping rows keeps the columns.
  The expansion writes the identifier between quotes into the expressions
  \<open>`from`=='...'\<close> and \<open>`to`=='...'\<close>; identifiers are taken to hold no quote and no
  backslash, so that the expression selects the rows whose column equals the identifier.
\<close>

record edge_frame =
  columns :: bool
  rows :: "edge list"

definition DataFrame :: "edge list \<Rightarrow> edge_frame" where
  "DataFrame es = \<lparr>columns = (es \<noteq> []), rows = es\<rparr>"

definition filter_entities :: "jaal \<Rightarrow> string list \<Rightarrow> string list" where
  "filter_entities self ids =
     (let ids1 = (if \<not> include_related_org self
                  then filter (\<lambda>i. \<not> str_contains i ''org'') ids else ids);
          ids2 = (if \<not> include_related_wf self
                  then filter (\<lambda>i. \<not> str_contains i ''wf'') ids1 else ids1);
          ids3 = (if \<not> include_related_tables self
                  then filter (\<lambda>i. \<not> str_contains i ''table'') ids2 else ids2)
      in ids3)"

text \<open>The targets of the edges leaving the node, and the sources of the edges entering it.\<close>

definition related_nodes_in :: "jaal \<Rightarrow> string \<Rightarrow> edge_frame \<Rightarrow> string list" where
  "related_nodes_in self found_node_id edge_df =
     filter_entities self
       (map edge_to (filter (\<lambda>e. edge_from e = found_node_id) (rows edge_df)))"

definition related_nodes_out :: "jaal \<Rightarrow> string \<Rightarrow> edge_frame \<Rightarrow> string list" where
  "related_nodes_out self found_node_id edge_df =
     filter_entities self
       (map edge_from (filter (\<lambda>e. edge_to e = found_node_id) (rows edge_df)))"

text \<open>\<open>edge_df.drop(edge_df[edge_df['from'].isin(ids)].index, inplace=True)\<close>\<close>

definition drop_from :: "string list \<Rightarrow> edge_frame \<Rightarrow> edge_frame" where
  "drop_from ids edge_df =
     edge_df\<lparr>rows := filter (\<lambda>e. edge_from e \<notin> set ids) (rows edge_df)\<rparr>"

text \<open>
  The frame is mutated in place and shared by all the recursive calls, so the function
  returns it with the nodes: the loop goes on with the frame the recursive call left.
\<close>

function get_related_nodes ::
  "jaal \<Rightarrow> string list \<Rightarrow> edge_frame \<Rightarrow> (string \<rightharpoonup> 'n) \<Rightarrow> exn + ('n list \<times> edge_frame)" where
  "get_related_nodes self [] edge_df node_map = Inr ([], edge_df)"
| "get_related_nodes self (found_node_id # rest) edge_df node_map =
     (case node_map found_node_id of
        None \<Rightarrow> Inl (KeyError (PStr found_node_id))
      | Some nd \<Rightarrow>
          if \<not> columns edge_df then Inl (UndefinedVariableError ''from'')
          else
            (case (if related_nodes_in self found_node_id edge_df
                      @ related_nodes_out self found_node_id edge_df \<noteq> []
                   then get_related_nodes self
                          (related_nodes_in self found_node_id edge_df
                           @ related_nodes_out self found_node_id edge_df)
                          (drop_from (related_nodes_out self found_node_id edge_df) edge_df)
                          node_map
                   else Inr ([], drop_from (related_nodes_out self found_node_id edge_df) edge_df))
             of
               Inl e \<Rightarrow> Inl e
             | Inr (sub, edge_df2) \<Rightarrow>
                 (case get_related_nodes self rest edge_df2 node_map of
                    Inl e \<Rightarrow> Inl e
                  | Inr (others, edge_df3) \<Rightarrow> Inr (nd # sub @ others, edge_df3))))"
  by pat_completeness auto

section \<open>Node filter\<close>

text \<open>The rows a boolean mask selects.\<close>

definition select :: "bool list \<Rightarrow> 'a list \<Rightarrow> 'a list" where
  "select msk rs = map fst (filter snd (zip rs msk))"

text \<open>\<open>{node['id']: node for node in nodes}\<close>: a later node replaces an earlier one.\<close>

definition node_map_of :: "node list \<Rightarrow> (string \<rightharpoonup> node)" where
  "node_map_of ns = foldl (\<lambda>m n. m(node_id n \<mapsto> n)) Map.empty ns"

fun lookup_nodes :: "(string \<rightharpoonup> 'n) \<Rightarrow> string list \<Rightarrow> exn + 'n list" where
  "lookup_nodes node_map [] = Inr []"
| "lookup_nodes node_map (found_node_id # rest) =
     (case node_map found_node_id of
        None \<Rightarrow> Inl (KeyError (PStr found_node_id))
      | Some nd \<Rightarrow>
          (case lookup_nodes node_map rest of
             Inl e \<Rightarrow> Inl e
           | Inr ns \<Rightarrow> Inr (nd # ns)))"

text \<open>
  The body of the \<open>try\<close> of \<open>_callback_filter_nodes\<close>: the list \<open>nodes\<close> it builds, or
  the exception. A frame of no records has no column \<open>id\<close>.
\<close>

definition filter_nodes_try :: "env \<Rightarrow> jaal \<Rightarrow> string \<Rightarrow> exn + node list" where
  "filter_nodes_try env self filter_nodes_text =
     (let node_df = nodes (filtered_data self);
          node_map = node_map_of (nodes (filtered_data self))
      in case query_nodes env filter_nodes_text node_df of
           None \<Rightarrow> Inl (QueryError filter_nodes_text)
         | Some msk \<Rightarrow>
             if node_df = [] then Inl (KeyError (PStr ''id''))
             else
               let found_nodes_ids = map node_id (select msk node_df)
               in case lookup_nodes node_map found_nodes_ids of
                    Inl e \<Rightarrow> Inl e
                  | Inr ns \<Rightarrow>
                      if add_related_entities self
                      then (case get_related_nodes self found_nodes_ids
                                   (DataFrame (edges (filtered_data self))) node_map of
                              Inl e \<Rightarrow> Inl e
                            | Inr (rel, edge_df) \<Rightarrow> Inr (ns @ rel))
                      else Inr ns)"

definition callback_filter_nodes ::
  "env \<Rightarrow> jaal \<Rightarrow> (node, edge) graph \<Rightarrow> string \<Rightarrow> bool \<Rightarrow> bool \<Rightarrow> bool \<Rightarrow> bool
   \<Rightarrow> jaal \<times> (node, edge) graph" where
  "callback_filter_nodes env self graph_data filter_nodes_text add_related_entities'
       include_related_org' include_related_wf' include_related_tables' =
     (let self1 = self\<lparr>add_related_entities := add_related_entities',
                       include_related_wf := include_related_wf',
                       include_related_org := include_related_org',
                       include_related_tables := include_related_tables',
                       filtered_data := data self\<rparr>
      in case filter_nodes_try env self1 filter_nodes_text of
           Inr ns \<Rightarrow>
             (let self2 = self1\<lparr>filtered_data := (filtered_data self1)\<lparr>nodes := ns\<rparr>\<rparr>
              in (self2, filtered_data self2))
         | Inl e \<Rightarrow>
             (self1\<lparr>out := out self1 @ [PrintExc e, PrintExn e, Print ''wrong node filter query!!'']\<rparr>,
              data self1))"

section \<open>Edge filter\<close>

definition filter_edges_try :: "env \<Rightarrow> jaal \<Rightarrow> string \<Rightarrow> exn + edge list" where
  "filter_edges_try env self filter_edges_text =
     (let edges_df = edges (filtered_data self)
      in case query_edges env filter_edges_text edges_df of
           None \<Rightarrow> Inl (QueryError filter_edges_text)
         | Some msk \<Rightarrow>
             if edges_df = [] then Inl (KeyError (PStr ''id''))
             else
               let edges_list = map edge_id (select msk edges_df)
               in Inr (filter (\<lambda>e. edge_id e \<in> set edges_list) (edges (filtered_data self))))"

definition callback_filter_edges ::
  "env \<Rightarrow> jaal \<Rightarrow> (node, edge) graph \<Rightarrow> string \<Rightarrow> jaal \<times> (node, edge) graph" where
  "callback_filter_edges env self graph_data filter_edges_text =
     (let self1 = self\<lparr>filtered_data := data self\<rparr>
      in case filter_edges_try env self1 filter_edges_text of
           Inr es \<Rightarrow>
             (let self2 = self1\<lparr>filtered_data := (filtered_data self1)\<lparr>edges := es\<rparr>\<rparr>
              in (self2, filtered_data self2))
         | Inl e \<Rightarrow>
             (self1\<lparr>out := out self1 @ [Print ''wrong edge filter query!!'']\<rparr>, data self1))"

section \<open>Colour and size\<close>

text \<open>\<open>node[key]\<close> and \<open>edge[key]\<close>.\<close>

definition node_get :: "node \<Rightarrow> string \<Rightarrow> exn + pyval" where
  "node_get n k =
     (if k = ''id'' then Inr (PStr (node_id n))
      else if k = ''label'' then Inr (PStr (node_label n))
      else if k = ''size'' then Inr (PNum (node_size n))
      else if k = ''color'' then Inr (PStr (node_color n))
      else if k = ''hidden'' then
        (case node_hidden n of None \<Rightarrow> Inl (KeyError (PStr k)) | Some b \<Rightarrow> Inr (PBool b))
      else (case map_of (node_attrs n) k of None \<Rightarrow> Inl (KeyError (PStr k)) | Some v \<Rightarrow> Inr v))"

definition edge_get :: "edge \<Rightarrow> string \<Rightarrow> exn + pyval" where
  "edge_get e k =
     (if k = ''id'' then Inr (PStr (edge_id e))
      else if k = ''from'' then Inr (PStr (edge_from e))
      else if k = ''to'' then Inr (PStr (edge_to e))
      else if k = ''width'' then Inr (PNum (edge_width e))
      else if k = ''color'' then Inr (PDict [(''color'', edge_color e)])
      else (case map_of (edge_attrs e) k of None \<Rightarrow> Inl (KeyError (PStr k)) | Some v \<Rightarrow> Inr v))"

text \<open>A \<open>for\<close> loop that rewrites each record, up to the first exception.\<close>

fun for_each :: "('a \<Rightarrow> exn + 'a) \<Rightarrow> 'a list \<Rightarrow> exn + 'a list" where
  "for_each f [] = Inr []"
| "for_each f (x # xs) =
     (case f x of
        Inl e \<Rightarrow> Inl e
      | Inr y \<Rightarrow> (case for_each f xs of Inl e \<Rightarrow> Inl e | Inr ys \<Rightarrow> Inr (y # ys)))"

text \<open>The operand of the arithmetic: a number, or a bool counting as 0 or 1.\<close>

definition num_of :: "pyval \<Rightarrow> exn + rat" where
  "num_of v = (case v of PNum r \<Rightarrow> Inr r | PBool b \<Rightarrow> Inr (if b then 1 else 0) | PStr s \<Rightarrow> Inl TypeError
                | PDict d \<Rightarrow> Inl TypeError)"

text \<open>\<open>scale_val = lambda x: 20 * (x - minn) / (maxx - minn)\<close>\<close>

definition scale_val :: "rat \<Rightarrow> rat \<Rightarrow> pyval \<Rightarrow> exn + rat" where
  "scale_val minn maxx x =
     (case num_of x of
        Inl e \<Rightarrow> Inl e
      | Inr r \<Rightarrow> if maxx - minn = 0 then Inl ZeroDivisionError
                 else Inr (20 * (r - minn) / (maxx - minn)))"

text \<open>
  \<open>pd.DataFrame(records)[key]\<close>: the column, with no value where a record lacks the key;
  a key that no record has is no column. \<open>unique()\<close> keeps the first occurrence of each
  value and cannot hash a dict.
\<close>

definition column :: "('r \<Rightarrow> string \<Rightarrow> exn + pyval) \<Rightarrow> 'r list \<Rightarrow> string \<Rightarrow> exn + pyval option list" where
  "column get rs k =
     (if list_all (\<lambda>r. isl (get r k)) rs then Inl (KeyError (PStr k))
      else Inr (map (\<lambda>r. case get r k of Inl e \<Rightarrow> None | Inr v \<Rightarrow> Some v) rs))"

definition is_dict :: "pyval option \<Rightarrow> bool" where
  "is_dict v = (case v of Some (PDict d) \<Rightarrow> True | _ \<Rightarrow> False)"

definition unique :: "pyval option list \<Rightarrow> exn + pyval option list" where
  "unique vs = (if list_ex is_dict vs then Inl TypeError else Inr (rev (remdups (rev vs))))"

text \<open>\<open>value_color_mapping[record[key]]\<close>\<close>

definition pick_color ::
  "('r \<Rightarrow> string \<Rightarrow> exn + pyval) \<Rightarrow> (pyval option \<times> string) list \<Rightarrow> string \<Rightarrow> 'r \<Rightarrow> exn + string" where
  "pick_color get value_color_mapping k r =
     (case get r k of
        Inl e \<Rightarrow> Inl e
      | Inr v \<Rightarrow> (case map_of value_color_mapping (Some v) of
                    None \<Rightarrow> Inl (KeyError v)
                  | Some c \<Rightarrow> Inr c))"

text \<open>The last lines of the four handlers: ``filter the data currently shown''.\<close>

definition shown_nodes :: "jaal \<Rightarrow> jaal" where
  "shown_nodes self =
     (let filtered_nodes = map node_id (nodes (filtered_data self))
      in self\<lparr>filtered_data := (filtered_data self)
           \<lparr>nodes := filter (\<lambda>x. node_id x \<in> set filtered_nodes) (nodes (data self))\<rparr>\<rparr>)"

definition shown_edges :: "jaal \<Rightarrow> jaal" where
  "shown_edges self =
     (let filtered_edges = map edge_id (edges (filtered_data self))
      in self\<lparr>filtered_data := (filtered_data self)
           \<lparr>edges := filter (\<lambda>x. edge_id x \<in> set filtered_edges) (edges (data self))\<rparr>\<rparr>)"

text \<open>
  The colour and size handlers catch nothing: an exception leaves the handler, and the
  result is then the exception alone.
\<close>

definition callback_color_nodes ::
  "env \<Rightarrow> jaal \<Rightarrow> (node, edge) graph \<Rightarrow> string
   \<Rightarrow> exn + (jaal \<times> (node, edge) graph \<times> (pyval option \<times> string) list)" where
  "callback_color_nodes env self graph_data color_nodes_value =
     (case (if color_nodes_value = ''None''
            then Inr (self\<lparr>data := (data self)
                       \<lparr>nodes := map (\<lambda>n. n\<lparr>node_color := DEFAULT_COLOR env\<rparr>) (nodes (data self))\<rparr>\<rparr>, [])
            else
              let self1 = self\<lparr>out := out self @ [Print (''inside color node '' @ color_nodes_value)]\<rparr>
              in case column node_get (nodes (data self1)) color_nodes_value of
                   Inl e \<Rightarrow> Inl e
                 | Inr col \<Rightarrow>
                     (case unique col of
                        Inl e \<Rightarrow> Inl e
                      | Inr unique_values \<Rightarrow>
                          let colors = get_distinct_colors env (length unique_values);
                              value_color_mapping = zip unique_values colors
                          in case for_each
                                    (\<lambda>n. case pick_color node_get value_color_mapping color_nodes_value n of
                                            Inl e \<Rightarrow> Inl e
                                          | Inr c \<Rightarrow> Inr (n\<lparr>node_color := c\<rparr>))
                                    (nodes (data self1)) of
                               Inl e \<Rightarrow> Inl e
                             | Inr ns \<Rightarrow> Inr (self1\<lparr>data := (data self1)\<lparr>nodes := ns\<rparr>\<rparr>, value_color_mapping)))
      of
        Inl e \<Rightarrow> Inl e
      | Inr (self2, value_color_mapping) \<Rightarrow>
          (let self3 = shown_nodes self2 in Inr (self3, filtered_data self3, value_color_mapping)))"

definition callback_size_nodes ::
  "env \<Rightarrow> jaal \<Rightarrow> (node, edge) graph \<Rightarrow> string \<Rightarrow> exn + (jaal \<times> (node, edge) graph)" where
  "callback_size_nodes env self graph_data size_nodes_value =
     (case (if size_nodes_value = ''None''
            then Inr (self\<lparr>data := (data self)
                       \<lparr>nodes := map (\<lambda>n. n\<lparr>node_size := DEFAULT_NODE_SIZE env\<rparr>) (nodes (data self))\<rparr>\<rparr>)
            else
              let self1 = self\<lparr>out := out self @ [Print (''Modifying node size using  '' @ size_nodes_value)]\<rparr>
              in case map_of (sv_node (scaling_vars self1)) size_nodes_value of
                   None \<Rightarrow> Inl (KeyError (PStr size_nodes_value))
                 | Some (minn, maxx) \<Rightarrow>
                     (case for_each
                             (\<lambda>n. case node_get n size_nodes_value of
                                     Inl e \<Rightarrow> Inl e
                                   | Inr x \<Rightarrow>
                                       (case scale_val minn maxx x of
                                          Inl e \<Rightarrow> Inl e
                                        | Inr s \<Rightarrow> Inr (n\<lparr>node_size := node_size n + s\<rparr>)))
                             (nodes (data self1)) of
                        Inl e \<Rightarrow> Inl e
                      | Inr ns \<Rightarrow> Inr (self1\<lparr>data := (data self1)\<lparr>nodes := ns\<rparr>\<rparr>)))
      of
        Inl e \<Rightarrow> Inl e
      | Inr self2 \<Rightarrow> (let self3 = shown_nodes self2 in Inr (self3, filtered_data self3)))"

definition callback_color_edges ::
  "env \<Rightarrow> jaal \<Rightarrow> (node, edge) graph \<Rightarrow> string
   \<Rightarrow> exn + (jaal \<times> (node, edge) graph \<times> (pyval option \<times> string) list)" where
  "callback_color_edges env self graph_data color_edges_value =
     (case (if color_edges_value = ''None''
            then Inr (self\<lparr>data := (data self)
                       \<lparr>edges := map (\<lambda>e. e\<lparr>edge_color := DEFAULT_COLOR env\<rparr>) (edges (data self))\<rparr>\<rparr>, [])
            else
              let self1 = self\<lparr>out := out self @ [Print (''inside color edge '' @ color_edges_value)]\<rparr>
              in case column edge_get (edges (data self1)) color_edges_value of
                   Inl e \<Rightarrow> Inl e
                 | Inr col \<Rightarrow>
                     (case unique col of
                        Inl e \<Rightarrow> Inl e
                      | Inr unique_values \<Rightarrow>
                          let colors = get_distinct_colors env (length unique_values);
                              value_color_mapping = zip unique_values colors
                          in case for_each
                                    (\<lambda>ed. case pick_color edge_get value_color_mapping color_edges_value ed of
                                             Inl e \<Rightarrow> Inl e
                                           | Inr c \<Rightarrow> Inr (ed\<lparr>edge_color := c\<rparr>))
                                    (edges (data self1)) of
                               Inl e \<Rightarrow> Inl e
                             | Inr es \<Rightarrow> Inr (self1\<lparr>data := (data self1)\<lparr>edges := es\<rparr>\<rparr>, value_color_mapping)))
      of
        Inl e \<Rightarrow> Inl e
      | Inr (self2, value_color_mapping) \<Rightarrow>
          (let self3 = shown_edges self2 in Inr (self3, filtered_data self3, value_color_mapping)))"

definition callback_size_edges ::
  "env \<Rightarrow> jaal \<Rightarrow> (node, edge) graph \<Rightarrow> string \<Rightarrow> exn + (jaal \<times> (node, edge) graph)" where
  "callback_size_edges env self graph_data size_edges_value =
     (case (if size_edges_value = ''None''
            then Inr (self\<lparr>data := (data self)
                       \<lparr>edges := map (\<lambda>e. e\<lparr>edge_width := DEFAULT_EDGE_SIZE env\<rparr>) (edges (data self))\<rparr>\<rparr>)
            else
              let self1 = self\<lparr>out := out self @ [Print (''Modifying edge size using  '' @ size_edges_value)]\<rparr>
              in case map_of (sv_edge (scaling_vars self1)) size_edges_value of
                   None \<Rightarrow> Inl (KeyError (PStr size_edges_value))
                 | Some (minn, maxx) \<Rightarrow>
                     (case for_each
                             (\<lambda>ed. case edge_get ed size_edges_value of
                                      Inl e \<Rightarrow> Inl e
                                    | Inr x \<Rightarrow>
                                        (case scale_val minn maxx x of
                                           Inl e \<Rightarrow> Inl e
                                         | Inr s \<Rightarrow> Inr (ed\<lparr>edge_width := s\<rparr>)))
                             (edges (data self1)) of
                        Inl e \<Rightarrow> Inl e
                      | Inr es \<Rightarrow> Inr (self1\<lparr>data := (data self1)\<lparr>edges := es\<rparr>\<rparr>)))
      of
        Inl e \<Rightarrow> Inl e
      | Inr self2 \<Rightarrow> (let self3 = shown_edges self2 in Inr (self3, filtered_data self3)))"

section \<open>Notions of the specification\<close>


text \<open>Two identifiers are neighbours when an edge joins them, in either direction.\<close>

definition neighbours :: "edge list \<Rightarrow> (string \<times> string) set" where
  "neighbours es =
     (\<lambda>e. (edge_from e, edge_to e)) ` set es \<union> (\<lambda>e. (edge_to e, edge_from e)) ` set es"

text \<open>An identifier carries no marker of a category that is switched off.\<close>

definition passes :: "jaal \<Rightarrow> string \<Rightarrow> bool" where
  "passes self i \<longleftrightarrow>
     (include_related_org self \<or> \<not> str_contains i ''org'') \<and>
     (include_related_wf self \<or> \<not> str_contains i ''wf'') \<and>
     (include_related_tables self \<or> \<not> str_contains i ''table'')"


text \<open>
  What the expansion may return for a call: the node of an identifier that is a seed of the
  call or passes the exclusions, and that a path of neighbours joins to a seed.
\<close>

definition traced :: "jaal \<Rightarrow> string list \<Rightarrow> edge_frame \<Rightarrow> (string \<rightharpoonup> 'n) \<Rightarrow> 'n \<Rightarrow> bool" where
  "traced self ids df m n \<longleftrightarrow>
     (\<exists>v. m v = Some n \<and> (v \<in> set ids \<or> passes self v) \<and> (\<exists>s \<in> set ids. (s, v) \<in> (neighbours (rows df))\<^sup>*))"


section \<open>Example data\<close>

definition example_node :: "string \<Rightarrow> (string \<times> pyval) list \<Rightarrow> node" where
  "example_node i as =
     \<lparr>node_id = i, node_label = i, node_size = 7, node_color = ''#97C2FC'', node_hidden = None,
      node_attrs = as\<rparr>"

definition example_edge :: "string \<Rightarrow> string \<Rightarrow> (string \<times> pyval) list \<Rightarrow> edge" where
  "example_edge a b as =
     \<lparr>edge_id = a @ ''__'' @ b, edge_from = a, edge_to = b, edge_width = 1,
      edge_color = ''#97C2FC'', edge_attrs = as\<rparr>"

text \<open>The expression \<open>id=='i'\<close>.\<close>

definition example_query :: "string \<Rightarrow> string" where
  "example_query i = ''id=='' @ [CHR 0x27] @ i @ [CHR 0x27]"

text \<open>
  An evaluator that knows the expressions \<open>id=='...'\<close> only, and raises on any other text.
\<close>

definition example_env :: env where
  "example_env =
     \<lparr>DEFAULT_COLOR = ''#97C2FC'', DEFAULT_NODE_SIZE = 7, DEFAULT_EDGE_SIZE = 1,
      get_distinct_colors = (\<lambda>n. take n [''#e6194b'', ''#3cb44b'', ''#ffe119'', ''#4363d8'']),
      query_nodes = (\<lambda>text rs. if prefix ''id=='' text
                       then Some (map (\<lambda>r. text = example_query (node_id r)) rs)
                       else None),
      query_edges = (\<lambda>text rs. if prefix ''id=='' text
                       then Some (map (\<lambda>r. text = example_query (edge_id r)) rs)
                       else None)\<rparr>"

definition example_graph :: "(node, edge) graph" where
  "example_graph =
     \<lparr>nodes = [example_node ''A'' [(''weight'', PNum 5)], example_node ''org1'' [(''weight'', PNum 5)],
               example_node ''B'' [(''weight'', PNum 5)]],
      edges = [example_edge ''A'' ''org1'' [(''weight'', PNum 3)],
               example_edge ''A'' ''B'' [(''weight'', PNum 3)]]\<rparr>"

definition example_jaal :: jaal where
  "example_jaal = init example_graph \<lparr>sv_node = [(''weight'', 5, 5)], sv_edge = [(''weight'', 3, 3)]\<rparr>"



section \<open>Auxiliary notions for the termination of the expansion\<close>

definition shrunk :: "edge_frame \<Rightarrow> edge_frame \<Rightarrow> bool" where
  "shrunk df' df \<longleftrightarrow> columns df' = columns df \<and> (\<exists>P. rows df' = filter P (rows df))"

definition level :: "jaal \<Rightarrow> edge_frame \<Rightarrow> string \<Rightarrow> nat" where
  "level self edge_df v =
     (if related_nodes_out self v edge_df \<noteq> [] \<or> related_nodes_in self v edge_df = [] then 0
      else if passes self v then 1 else 2)"

fun max_level :: "jaal \<Rightarrow> edge_frame \<Rightarrow> string list \<Rightarrow> nat" where
  "max_level self edge_df [] = 0"
| "max_level self edge_df (v # vs) = max (level self edge_df v) (max_level self edge_df vs)"

definition frame_order :: "((jaal \<times> string list \<times> edge_frame \<times> (string \<rightharpoonup> 'n)) \<times> (jaal \<times> string list \<times> edge_frame \<times> (string \<rightharpoonup> 'n))) set" where
  "frame_order = inv_image (less_than <*lex*> less_than <*lex*> less_than)
     (\<lambda>(self, ids, edge_df, node_map). (length (rows edge_df), max_level self edge_df ids, length ids))"


section \<open>Unfolding the examples\<close>

lemmas example_defs = example_env_def example_jaal_def example_graph_def example_node_def
  example_edge_def example_query_def init_def

lemmas handler_defs = callback_size_nodes_def callback_size_edges_def callback_color_nodes_def
  callback_color_edges_def node_get_def edge_get_def scale_val_def num_of_def column_def
  unique_def is_dict_def pick_color_def shown_nodes_def shown_edges_def Let_def

lemmas filter_defs = callback_filter_nodes_def callback_filter_edges_def filter_nodes_try_def
  filter_edges_try_def select_def node_map_of_def DataFrame_def related_nodes_in_def
  related_nodes_out_def drop_from_def filter_entities_def Let_def

section \<open>Termination of the expansion\<close>

text \<open>
  The frame never grows. A call that drops no row has a node without sources that pass the
  exclusions, and goes on with the targets of that node: these pass the exclusions, and
  either the node they come from is a source of theirs, so that rows are dropped next, or
  it is an excluded seed, which no later call can have in its list again.
\<close>

lemma filter_entities_filter: "filter_entities self ids = filter (passes self) ids"
  by (auto simp: filter_entities_def passes_def Let_def intro: filter_cong)

lemma shrunk_refl: "shrunk df df"
  unfolding shrunk_def by (auto intro: exI[of _ "\<lambda>_. True"])

lemma shrunk_trans: "shrunk df2 df1 \<Longrightarrow> shrunk df1 df \<Longrightarrow> shrunk df2 df"
proof -
  assume a: "shrunk df2 df1" and b: "shrunk df1 df"
  from a obtain P where P: "rows df2 = filter P (rows df1)" unfolding shrunk_def by blast
  from b obtain Q where Q: "rows df1 = filter Q (rows df)" unfolding shrunk_def by blast
  from P Q have "rows df2 = filter (\<lambda>e. Q e \<and> P e) (rows df)" by simp
  with a b show ?thesis unfolding shrunk_def by auto
qed

lemma shrunk_drop_from: "shrunk (drop_from ids df) df"
  unfolding shrunk_def drop_from_def by auto

lemma get_related_nodes_shrunk:
  "get_related_nodes_dom (self, ids, edge_df, node_map) \<Longrightarrow>
   get_related_nodes self ids edge_df node_map = Inr (ns, edge_df') \<Longrightarrow>
   shrunk edge_df' edge_df"
proof (induction self ids edge_df node_map arbitrary: ns edge_df' rule: get_related_nodes.pinduct)
  case (1 self edge_df node_map)
  then show ?case
    by (simp add: get_related_nodes.psimps shrunk_refl)
next
  case (2 self found_node_id rest edge_df node_map)
  let ?rel = "related_nodes_in self found_node_id edge_df @ related_nodes_out self found_node_id edge_df"
  let ?df1 = "drop_from (related_nodes_out self found_node_id edge_df) edge_df"
  let ?inner = "if ?rel \<noteq> [] then get_related_nodes self ?rel ?df1 node_map else Inr ([], ?df1)"
  from "2.prems" "2.hyps" obtain nd sub df2 others where
    nm: "node_map found_node_id = Some nd" and cols: "columns edge_df" and
    inner: "?inner = Inr (sub, df2)" and
    outer: "get_related_nodes self rest df2 node_map = Inr (others, edge_df')"
    by (auto simp: get_related_nodes.psimps split: option.splits if_splits sum.splits prod.splits)
  have d2: "shrunk df2 ?df1"
  proof (cases "?rel \<noteq> []")
    case True
    with inner have "get_related_nodes self ?rel ?df1 node_map = Inr (sub, df2)" by simp
    from "2.IH"(1)[OF nm _ True this] cols show ?thesis by simp
  next
    case False
    with inner have "df2 = ?df1" by simp
    then show ?thesis by (simp add: shrunk_refl)
  qed
  have d3: "shrunk edge_df' df2"
    using "2.IH"(2)[OF nm _ inner refl outer] cols by simp
  from d3 d2 shrunk_drop_from show ?case
    by (blast intro: shrunk_trans)
qed

lemma max_level_less_iff:
  "0 < n \<Longrightarrow> max_level self edge_df vs < n \<longleftrightarrow> (\<forall>v \<in> set vs. level self edge_df v < n)"
  by (induction vs) auto

lemma level_successor:
  assumes out: "related_nodes_out self v edge_df = []"
    and w: "w \<in> set (related_nodes_in self v edge_df)"
  shows "level self edge_df w < level self edge_df v"
proof -
  from w obtain e where e: "e \<in> set (rows edge_df)" "edge_from e = v" "edge_to e = w" and pw: "passes self w"
    by (auto simp: related_nodes_in_def filter_entities_filter)
  from w have inne: "related_nodes_in self v edge_df \<noteq> []" by auto
  show ?thesis
  proof (cases "passes self v")
    case True
    with e have "v \<in> set (related_nodes_out self w edge_df)"
      by (force simp: related_nodes_out_def filter_entities_filter)
    then have "level self edge_df w = 0" by (auto simp: level_def)
    with True out inne show ?thesis by (simp add: level_def)
  next
    case False
    with out inne have "level self edge_df v = 2" by (simp add: level_def)
    moreover from pw have "level self edge_df w \<le> 1" by (simp add: level_def)
    ultimately show ?thesis by simp
  qed
qed

lemma drop_from_shrinks:
  "ids \<noteq> [] \<Longrightarrow> set ids \<subseteq> set (map edge_from (rows edge_df)) \<Longrightarrow>
   length (rows (drop_from ids edge_df)) < length (rows edge_df)"
proof -
  assume ne: "ids \<noteq> []" and sub: "set ids \<subseteq> set (map edge_from (rows edge_df))"
  from ne obtain i where "i \<in> set ids" by (cases ids) auto
  with sub obtain e where "e \<in> set (rows edge_df)" "edge_from e \<in> set ids" by auto
  then show ?thesis
    by (auto simp: drop_from_def intro!: length_filter_less)
qed

lemma related_nodes_out_sources:
  "set (related_nodes_out self v edge_df) \<subseteq> set (map edge_from (rows edge_df))"
  by (auto simp: related_nodes_out_def filter_entities_filter)

lemma drop_from_Nil: "drop_from [] edge_df = edge_df"
  by (simp add: drop_from_def)

lemma shrunk_length:
  assumes "shrunk df' df"
  shows "length (rows df') < length (rows df) \<or> rows df' = rows df"
proof -
  from assms obtain P where P: "rows df' = filter P (rows df)"
    unfolding shrunk_def by blast
  show ?thesis
  proof (cases "\<forall>e \<in> set (rows df). P e")
    case True
    with P show ?thesis by simp
  next
    case False
    with P show ?thesis by (auto intro: length_filter_less)
  qed
qed

lemma level_rows_cong: "rows df' = rows df \<Longrightarrow> level self df' v = level self df v"
  by (simp add: level_def related_nodes_in_def related_nodes_out_def)

lemma max_level_rows_cong: "rows df' = rows df \<Longrightarrow> max_level self df' vs = max_level self df vs"
  by (induction vs) (simp_all add: level_rows_cong[of df' df])

lemma wf_frame_order: "wf frame_order"
  unfolding frame_order_def by (intro wf_inv_image wf_lex_prod wf_less_than)

lemma inner_call_decreases:
  assumes "related_nodes_in self v edge_df @ related_nodes_out self v edge_df \<noteq> []"
  shows "((self, related_nodes_in self v edge_df @ related_nodes_out self v edge_df,
           drop_from (related_nodes_out self v edge_df) edge_df, node_map),
          (self, v # rest, edge_df, node_map)) \<in> frame_order"
proof (cases "related_nodes_out self v edge_df = []")
  case True
  with assms have pos: "0 < level self edge_df v" by (simp add: level_def)
  have "max_level self edge_df (related_nodes_in self v edge_df) < level self edge_df v"
    unfolding max_level_less_iff[OF pos] using level_successor[OF True] by blast
  also have "\<dots> \<le> max_level self edge_df (v # rest)" by simp
  finally show ?thesis using True
    by (simp add: frame_order_def drop_from_Nil)
next
  case False
  from drop_from_shrinks[OF False related_nodes_out_sources]
  show ?thesis by (simp add: frame_order_def)
qed

lemma outer_call_decreases:
  assumes "shrunk df2 edge_df"
  shows "((self, rest, df2, node_map), (self, v # rest, edge_df, node_map)) \<in> frame_order"
proof -
  from shrunk_length[OF assms] show ?thesis
  proof
    assume "length (rows df2) < length (rows edge_df)"
    then show ?thesis by (simp add: frame_order_def)
  next
    assume same: "rows df2 = rows edge_df"
    have "max_level self df2 rest \<le> max_level self edge_df (v # rest)"
      using max_level_rows_cong[OF same, of self rest] by simp
    with same show ?thesis by (auto simp: frame_order_def)
  qed
qed


termination get_related_nodes
proof (relation "frame_order")
  show "wf (frame_order :: ((jaal \<times> string list \<times> edge_frame \<times> (string \<rightharpoonup> 'n)) \<times> _) set)"
    by (rule wf_frame_order)
next
  fix self :: jaal and found_node_id rest and edge_df :: edge_frame and node_map :: "string \<rightharpoonup> 'n" and x2
  assume "related_nodes_in self found_node_id edge_df @ related_nodes_out self found_node_id edge_df \<noteq> []"
  then show "((self, related_nodes_in self found_node_id edge_df @ related_nodes_out self found_node_id edge_df,
           drop_from (related_nodes_out self found_node_id edge_df) edge_df, node_map),
          (self, found_node_id # rest, edge_df, node_map)) \<in> frame_order"
    by (rule inner_call_decreases)
next
  fix self :: jaal and found_node_id rest and edge_df :: edge_frame and node_map :: "string \<rightharpoonup> 'n"
    and x2 b x y
  let ?rel = "related_nodes_in self found_node_id edge_df @ related_nodes_out self found_node_id edge_df"
  let ?df1 = "drop_from (related_nodes_out self found_node_id edge_df) edge_df"
  assume inner: "(if ?rel \<noteq> [] then get_related_nodes self ?rel ?df1 node_map else Inr ([], ?df1)) = Inr b"
    and b: "(x, y) = b"
    and dom: "?rel \<noteq> [] \<Longrightarrow> get_related_nodes_dom (self, ?rel, ?df1, node_map)"
  have "shrunk y ?df1"
  proof (cases "?rel \<noteq> []")
    case True
    with inner b have "get_related_nodes self ?rel ?df1 node_map = Inr (x, y)" by simp
    from get_related_nodes_shrunk[OF dom[OF True] this] show ?thesis .
  next
    case False
    with inner b have "y = ?df1" by auto
    then show ?thesis by (simp add: shrunk_refl)
  qed
  then have "shrunk y edge_df"
    using shrunk_drop_from by (blast intro: shrunk_trans)
  then show "((self, rest, y, node_map), (self, found_node_id # rest, edge_df, node_map)) \<in> frame_order"
    by (rule outer_call_decreases)
qed


section \<open>What the expansion returns\<close>

lemma shrunk_rows_subset: "shrunk df' df \<Longrightarrow> set (rows df') \<subseteq> set (rows df)"
  unfolding shrunk_def by auto


lemma neighbours_mono: "set es' \<subseteq> set es \<Longrightarrow> neighbours es' \<subseteq> neighbours es"
  unfolding neighbours_def by auto

lemma reach_mono:
  "shrunk df' df \<Longrightarrow> (s, v) \<in> (neighbours (rows df'))\<^sup>* \<Longrightarrow> (s, v) \<in> (neighbours (rows df))\<^sup>*"
  using rtrancl_mono[OF neighbours_mono[OF shrunk_rows_subset]] by blast

lemma related_are_neighbours:
  "w \<in> set (related_nodes_in self v df @ related_nodes_out self v df) \<Longrightarrow>
   (v, w) \<in> neighbours (rows df) \<and> passes self w"
  by (auto simp: related_nodes_in_def related_nodes_out_def filter_entities_filter neighbours_def image_iff)

lemma traced_seed: "m v = Some n \<Longrightarrow> traced self (v # rest) df m n"
  unfolding traced_def by auto

lemma traced_rest:
  "shrunk df' df \<Longrightarrow> traced self rest df' m n \<Longrightarrow> traced self (v # rest) df m n"
  unfolding traced_def by (auto dest: reach_mono)

lemma traced_sub:
  assumes sh: "shrunk df' df"
    and tr: "traced self (related_nodes_in self v df @ related_nodes_out self v df) df' m n"
  shows "traced self (v # rest) df m n"
proof -
  let ?rel = "related_nodes_in self v df @ related_nodes_out self v df"
  from tr obtain u s where u: "m u = Some n" "u \<in> set ?rel \<or> passes self u"
    and s: "s \<in> set ?rel" "(s, u) \<in> (neighbours (rows df'))\<^sup>*"
    unfolding traced_def by blast
  from u(2) have pu: "passes self u" using related_are_neighbours by blast
  from s(1) have "(v, s) \<in> neighbours (rows df)" using related_are_neighbours by blast
  moreover from s(2) sh have "(s, u) \<in> (neighbours (rows df))\<^sup>*" by (rule reach_mono[rotated])
  ultimately have "(v, u) \<in> (neighbours (rows df))\<^sup>*" by (rule converse_rtrancl_into_rtrancl)
  with u(1) pu show ?thesis unfolding traced_def by auto
qed

lemma get_related_nodes_result:
  "get_related_nodes self ids edge_df node_map = Inr (res, edge_df') \<Longrightarrow>
   shrunk edge_df' edge_df \<and> (\<forall>n \<in> set res. traced self ids edge_df node_map n)"
proof (induction self ids edge_df node_map arbitrary: res edge_df' rule: get_related_nodes.induct)
  case (1 self edge_df node_map)
  then show ?case by (simp add: shrunk_refl)
next
  case (2 self found_node_id rest edge_df node_map)
  let ?rel = "related_nodes_in self found_node_id edge_df @ related_nodes_out self found_node_id edge_df"
  let ?df1 = "drop_from (related_nodes_out self found_node_id edge_df) edge_df"
  let ?inner = "if ?rel \<noteq> [] then get_related_nodes self ?rel ?df1 node_map else Inr ([], ?df1)"
  from "2.prems" obtain nd sub df2 others where
    nm: "node_map found_node_id = Some nd" and cols: "columns edge_df" and
    inner: "?inner = Inr (sub, df2)" and
    outer: "get_related_nodes self rest df2 node_map = Inr (others, edge_df')" and
    res: "res = nd # sub @ others"
    by (auto split: option.splits if_splits sum.splits prod.splits)
  have i: "shrunk df2 ?df1 \<and> (\<forall>n \<in> set sub. traced self ?rel ?df1 node_map n)"
  proof (cases "?rel \<noteq> []")
    case True
    with inner have "get_related_nodes self ?rel ?df1 node_map = Inr (sub, df2)" by simp
    from "2.IH"(1)[OF nm _ True this] cols show ?thesis by simp
  next
    case False
    with inner have "df2 = ?df1" "sub = []" by simp_all
    then show ?thesis by (simp add: shrunk_refl)
  qed
  have o: "shrunk edge_df' df2 \<and> (\<forall>n \<in> set others. traced self rest df2 node_map n)"
    using "2.IH"(2)[OF nm _ inner refl outer] cols by simp
  from i have s2: "shrunk df2 edge_df" using shrunk_drop_from by (blast intro: shrunk_trans)
  with o have s3: "shrunk edge_df' edge_df" by (blast intro: shrunk_trans)
  have "traced self (found_node_id # rest) edge_df node_map n" if "n \<in> set res" for n
  proof -
    from that res consider "n = nd" | "n \<in> set sub" | "n \<in> set others" by auto
    then show ?thesis
    proof cases
      case 1
      with nm show ?thesis by (simp add: traced_seed)
    next
      case 2
      with i have "traced self ?rel ?df1 node_map n" by blast
      then show ?thesis by (rule traced_sub[OF shrunk_drop_from])
    next
      case 3
      with o have "traced self rest df2 node_map n" by blast
      then show ?thesis by (rule traced_rest[OF s2])
    qed
  qed
  with s3 show ?case by blast
qed


section \<open>Search: what is written and what is left\<close>

lemma str_contains_sublist: "str_contains s pat \<longleftrightarrow> sublist pat s"
  by (induction s) (auto simp: sublist_Cons_right)










section \<open>The filters\<close>

lemma select_subset: "set (select msk rs) \<subseteq> set rs"
  unfolding select_def by (auto dest: set_zip_leftD)

lemma node_map_foldl:
  "foldl (\<lambda>m n. m(node_id n \<mapsto> n)) m0 ns v = Some n \<Longrightarrow>
   (n \<in> set ns \<and> node_id n = v) \<or> m0 v = Some n"
  by (induction ns arbitrary: m0) (fastforce split: if_splits)+


lemma node_map_of_Some: "node_map_of ns v = Some n \<Longrightarrow> n \<in> set ns \<and> node_id n = v"
  unfolding node_map_of_def using node_map_foldl[of Map.empty ns v n] by simp






text \<open>
  C8. When the evaluation of the filter expression fails, the node filter and the edge filter
  raise nothing: each returns the full dataset as the snapshot, leaves the filtered view
  equal to the full dataset and the full dataset as it was, and prints that the query was
  wrong.
\<close>

theorem failed_filter_reverts:
  "(query_nodes env text (nodes (data self)) = None \<longrightarrow>
      snd (callback_filter_nodes env self graph_data text a b c d) = data self \<and>
      filtered_data (fst (callback_filter_nodes env self graph_data text a b c d)) = data self \<and>
      data (fst (callback_filter_nodes env self graph_data text a b c d)) = data self \<and>
      out (fst (callback_filter_nodes env self graph_data text a b c d))
        = out self @ [PrintExc (QueryError text), PrintExn (QueryError text),
                      Print ''wrong node filter query!!''])
   \<and> (query_edges env text (edges (data self)) = None \<longrightarrow>
      snd (callback_filter_edges env self graph_data text) = data self \<and>
      filtered_data (fst (callback_filter_edges env self graph_data text)) = data self \<and>
      data (fst (callback_filter_edges env self graph_data text)) = data self \<and>
      out (fst (callback_filter_edges env self graph_data text))
        = out self @ [Print ''wrong edge filter query!!''])"
  by (simp add: callback_filter_nodes_def callback_filter_edges_def filter_nodes_try_def
      filter_edges_try_def Let_def)

theorem failed_filter_reverts_witness:
  "query_nodes example_env ''weight >'' (nodes (data example_jaal)) = None
   \<and> snd (callback_filter_nodes example_env example_jaal example_graph ''weight >''
             True True True True) = data example_jaal
   \<and> query_edges example_env ''weight >'' (edges (data example_jaal)) = None
   \<and> snd (callback_filter_edges example_env example_jaal example_graph ''weight >'')
       = data example_jaal"
  using failed_filter_reverts[of example_env "''weight >''" example_jaal example_graph
      True True True True]
  by (simp add: example_env_def)

text \<open>
  C4, as the code has it. The edge filter evaluates the expression against the full edge
  table and rebuilds the filtered view from the full dataset: the edges of the view are the
  edges of the full dataset whose identifier is one of the matching identifiers, and the
  nodes of the view are reset to the full node collection. The full dataset is not changed.
\<close>

theorem filter_edges_rebuilds_from_full:
  assumes "query_edges env text (edges (data self)) = Some msk" and "edges (data self) \<noteq> []"
  shows "snd (callback_filter_edges env self graph_data text)
           = filtered_data (fst (callback_filter_edges env self graph_data text))
       \<and> data (fst (callback_filter_edges env self graph_data text)) = data self
       \<and> nodes (filtered_data (fst (callback_filter_edges env self graph_data text)))
           = nodes (data self)
       \<and> edges (filtered_data (fst (callback_filter_edges env self graph_data text)))
           = filter (\<lambda>e. edge_id e \<in> edge_id ` set (select msk (edges (data self))))
               (edges (data self))
       \<and> edge_id ` set (edges (filtered_data (fst (callback_filter_edges env self graph_data text))))
           = edge_id ` set (select msk (edges (data self)))"
proof -
  have "edge_id ` set (filter (\<lambda>e. edge_id e \<in> edge_id ` set (select msk (edges (data self))))
               (edges (data self))) = edge_id ` set (select msk (edges (data self)))"
    using select_subset[of msk "edges (data self)"] by auto
  with assms show ?thesis
    by (simp add: callback_filter_edges_def filter_edges_try_def Let_def)
qed

theorem filter_edges_rebuilds_from_full_witness:
  "query_edges example_env (example_query ''A__B'') (edges (data example_jaal)) = Some [False, True]
   \<and> edges (data example_jaal) \<noteq> []
   \<and> nodes (filtered_data (fst (callback_filter_edges example_env example_jaal example_graph
         (example_query ''A__B'')))) = nodes (data example_jaal)
   \<and> edge_id ` set (edges (filtered_data (fst (callback_filter_edges example_env example_jaal
         example_graph (example_query ''A__B''))))) = {''A__B''}"
proof -
  have q: "query_edges example_env (example_query ''A__B'') (edges (data example_jaal))
             = Some [False, True]"
    by (simp add: example_defs)
  have ne: "edges (data example_jaal) \<noteq> []"
    by (simp add: example_defs)
  from filter_edges_rebuilds_from_full[OF q ne, of example_graph] q ne show ?thesis
    by (simp add: example_defs select_def)
qed

text \<open>
  C4, as the claim states it, fails: a node filter leaves the node \<open>A\<close> alone in the view,
  and the edge filter that follows puts the three nodes of the full dataset back.
\<close>

theorem filter_edges_resets_nodes:
  "nodes (filtered_data (fst (callback_filter_edges example_env
      (fst (callback_filter_nodes example_env example_jaal example_graph (example_query ''A'')
             False True True True))
      example_graph (example_query ''A__B''))))
   \<noteq> nodes (filtered_data (fst (callback_filter_nodes example_env example_jaal example_graph
         (example_query ''A'') False True True True)))"
  by (simp add: example_defs filter_defs)

text \<open>
  C6. The node filter with related entities lists a node more than once: the selected nodes
  are appended, and the expansion appends them again and comes back to a node through the
  edge it arrived by. With the nodes \<open>A\<close>, \<open>org1\<close>, \<open>B\<close>, the edges from \<open>A\<close> to the two
  others and the expression \<open>id=='A'\<close>, the view holds \<open>A\<close> three times.
\<close>

theorem filter_nodes_duplicates:
  "map node_id (nodes (filtered_data (fst (callback_filter_nodes example_env example_jaal
      example_graph (example_query ''A'') True True True True))))
   = [''A'', ''A'', ''org1'', ''A'', ''B'']"
  by (simp add: example_defs filter_defs)

section \<open>The expansion: termination, reachability, exclusion\<close>

lemma passes_sublist:
  "passes self i \<longleftrightarrow>
     (include_related_org self \<or> \<not> sublist ''org'' i) \<and>
     (include_related_wf self \<or> \<not> sublist ''wf'' i) \<and>
     (include_related_tables self \<or> \<not> sublist ''table'' i)"
  by (simp add: passes_def str_contains_sublist)



text \<open>
  C9. Among the nodes the expansion returns, one that is not a seed carries no marker of a
  category whose flag is off: its identifier does not contain \<open>org\<close> when
  \<open>include_related_org\<close> is off, nor \<open>wf\<close> when \<open>include_related_wf\<close> is off, nor
  \<open>table\<close> when \<open>include_related_tables\<close> is off.
\<close>

theorem expansion_excludes_categories:
  assumes "get_related_nodes self seeds edge_df (node_map_of ns) = Inr (res, edge_df')"
    and "n \<in> set res" and "node_id n \<notin> set seeds"
  shows "(\<not> include_related_org self \<longrightarrow> \<not> sublist ''org'' (node_id n))
       \<and> (\<not> include_related_wf self \<longrightarrow> \<not> sublist ''wf'' (node_id n))
       \<and> (\<not> include_related_tables self \<longrightarrow> \<not> sublist ''table'' (node_id n))"
proof -
  from assms(1,2) get_related_nodes_result have "traced self seeds edge_df (node_map_of ns) n" by blast
  then obtain v where "node_map_of ns v = Some n" "v \<in> set seeds \<or> passes self v"
    unfolding traced_def by blast
  with assms(3) node_map_of_Some have "passes self (node_id n)" by blast
  then show ?thesis by (auto simp: passes_sublist)
qed

theorem expansion_excludes_categories_witness:
  "get_related_nodes (example_jaal\<lparr>include_related_org := False\<rparr>) [''A'']
       (DataFrame (edges example_graph)) (node_map_of (nodes example_graph))
     = Inr ([example_node ''A'' [(''weight'', PNum 5)], example_node ''B'' [(''weight'', PNum 5)],
             example_node ''A'' [(''weight'', PNum 5)]], \<lparr>columns = True, rows = []\<rparr>)
   \<and> \<not> sublist ''org'' (node_id (example_node ''B'' [(''weight'', PNum 5)]))"
proof -
  have eq: "get_related_nodes (example_jaal\<lparr>include_related_org := False\<rparr>) [''A'']
       (DataFrame (edges example_graph)) (node_map_of (nodes example_graph))
     = Inr ([example_node ''A'' [(''weight'', PNum 5)], example_node ''B'' [(''weight'', PNum 5)],
             example_node ''A'' [(''weight'', PNum 5)]], \<lparr>columns = True, rows = []\<rparr>)"
    by (simp add: example_defs filter_defs)
  from expansion_excludes_categories[OF eq, of "example_node ''B'' [(''weight'', PNum 5)]"]
  have "\<not> sublist ''org'' (node_id (example_node ''B'' [(''weight'', PNum 5)]))"
    by (simp add: example_defs)
  with eq show ?thesis by simp
qed

section \<open>Colour and size: exceptions\<close>

lemma for_each_isl: "x \<in> set xs \<Longrightarrow> isl (f x) \<Longrightarrow> isl (for_each f xs)"
  by (induction xs) (auto split: sum.splits)

lemma node_get_isl: "isl (node_get n k) \<Longrightarrow> node_get n k = Inl (KeyError (PStr k))"
  by (auto simp: node_get_def split: if_splits option.splits)

lemma edge_get_isl: "isl (edge_get e k) \<Longrightarrow> edge_get e k = Inl (KeyError (PStr k))"
  by (auto simp: edge_get_def split: if_splits option.splits)

lemma size_nodes_table:
  "v \<noteq> ''None'' \<Longrightarrow> map_of (sv_node (scaling_vars self)) v = None \<Longrightarrow>
   callback_size_nodes env self g v = Inl (KeyError (PStr v))"
  by (simp add: callback_size_nodes_def Let_def)

lemma size_edges_table:
  "v \<noteq> ''None'' \<Longrightarrow> map_of (sv_edge (scaling_vars self)) v = None \<Longrightarrow>
   callback_size_edges env self g v = Inl (KeyError (PStr v))"
  by (simp add: callback_size_edges_def Let_def)

lemma color_nodes_column:
  "v \<noteq> ''None'' \<Longrightarrow> \<forall>n \<in> set (nodes (data self)). isl (node_get n v) \<Longrightarrow>
   callback_color_nodes env self g v = Inl (KeyError (PStr v))"
  by (simp add: callback_color_nodes_def Let_def column_def list_all_iff)

lemma color_edges_column:
  "v \<noteq> ''None'' \<Longrightarrow> \<forall>e \<in> set (edges (data self)). isl (edge_get e v) \<Longrightarrow>
   callback_color_edges env self g v = Inl (KeyError (PStr v))"
  by (simp add: callback_color_edges_def Let_def column_def list_all_iff)

lemma isl_obtain: "isl r \<Longrightarrow> \<exists>e. r = Inl e"
  by (cases r) auto

lemma size_nodes_record:
  assumes "v \<noteq> ''None''" and "n \<in> set (nodes (data self))" and "isl (node_get n v)"
  shows "isl (callback_size_nodes env self g v)"
proof (cases "map_of (sv_node (scaling_vars self)) v")
  case None
  with assms(1) show ?thesis by (simp add: size_nodes_table)
next
  case (Some p)
  obtain minn maxx where p: "p = (minn, maxx)" by (cases p)
  let ?f = "\<lambda>n. case node_get n v of Inl e \<Rightarrow> Inl e
            | Inr x \<Rightarrow> (case scale_val minn maxx x of Inl e \<Rightarrow> Inl e
                         | Inr s \<Rightarrow> Inr (n\<lparr>node_size := node_size n + s\<rparr>))"
  from assms(3) have "isl (?f n)" by (auto split: sum.splits)
  from for_each_isl[of _ _ ?f, OF assms(2) this] obtain e where "for_each ?f (nodes (data self)) = Inl e"
    using isl_obtain by blast
  with assms(1) Some p show ?thesis
    by (simp add: callback_size_nodes_def Let_def)
qed

lemma size_edges_record:
  assumes "v \<noteq> ''None''" and "ed \<in> set (edges (data self))" and "isl (edge_get ed v)"
  shows "isl (callback_size_edges env self g v)"
proof (cases "map_of (sv_edge (scaling_vars self)) v")
  case None
  with assms(1) show ?thesis by (simp add: size_edges_table)
next
  case (Some p)
  obtain minn maxx where p: "p = (minn, maxx)" by (cases p)
  let ?f = "\<lambda>ed. case edge_get ed v of Inl e \<Rightarrow> Inl e
            | Inr x \<Rightarrow> (case scale_val minn maxx x of Inl e \<Rightarrow> Inl e
                         | Inr s \<Rightarrow> Inr (ed\<lparr>edge_width := s\<rparr>))"
  from assms(3) have "isl (?f ed)" by (auto split: sum.splits)
  from for_each_isl[of _ _ ?f, OF assms(2) this] obtain e where "for_each ?f (edges (data self)) = Inl e"
    using isl_obtain by blast
  with assms(1) Some p show ?thesis
    by (simp add: callback_size_edges_def Let_def)
qed

lemma color_nodes_record:
  assumes "v \<noteq> ''None''" and "n \<in> set (nodes (data self))" and "isl (node_get n v)"
  shows "isl (callback_color_nodes env self g v)"
proof (cases "column node_get (nodes (data self)) v")
  case (Inl e)
  with assms(1) show ?thesis by (simp add: callback_color_nodes_def Let_def)
next
  case col: (Inr col)
  show ?thesis
  proof (cases "unique col")
    case (Inl e)
    with assms(1) col show ?thesis by (simp add: callback_color_nodes_def Let_def)
  next
    case (Inr unique_values)
    let ?m = "zip unique_values (get_distinct_colors env (length unique_values))"
    let ?f = "\<lambda>n. case pick_color node_get ?m v n of Inl e \<Rightarrow> Inl e
                 | Inr c \<Rightarrow> Inr (n\<lparr>node_color := c\<rparr>)"
    from assms(3) have "isl (?f n)" by (auto simp: pick_color_def split: sum.splits)
    from for_each_isl[of _ _ ?f, OF assms(2) this] obtain e where "for_each ?f (nodes (data self)) = Inl e"
      using isl_obtain by blast
    with assms(1) col Inr show ?thesis
      by (simp add: callback_color_nodes_def Let_def)
  qed
qed

lemma color_edges_record:
  assumes "v \<noteq> ''None''" and "ed \<in> set (edges (data self))" and "isl (edge_get ed v)"
  shows "isl (callback_color_edges env self g v)"
proof (cases "column edge_get (edges (data self)) v")
  case (Inl e)
  with assms(1) show ?thesis by (simp add: callback_color_edges_def Let_def)
next
  case col: (Inr col)
  show ?thesis
  proof (cases "unique col")
    case (Inl e)
    with assms(1) col show ?thesis by (simp add: callback_color_edges_def Let_def)
  next
    case (Inr unique_values)
    let ?m = "zip unique_values (get_distinct_colors env (length unique_values))"
    let ?f = "\<lambda>ed. case pick_color edge_get ?m v ed of Inl e \<Rightarrow> Inl e
                 | Inr c \<Rightarrow> Inr (ed\<lparr>edge_color := c\<rparr>)"
    from assms(3) have "isl (?f ed)" by (auto simp: pick_color_def split: sum.splits)
    from for_each_isl[of _ _ ?f, OF assms(2) this] obtain e where "for_each ?f (edges (data self)) = Inl e"
      using isl_obtain by blast
    with assms(1) col Inr show ?thesis
      by (simp add: callback_color_edges_def Let_def)
  qed
qed

text \<open>
  C5, as the code has it. The colour and size handlers catch nothing. Called with an
  attribute other than \<open>None\<close> that the scaling table lacks (size) or that no record has
  (colour), the handler raises the \<open>KeyError\<close> of the lookup, which leaves the handler; and
  when some record lacks the attribute, the four handlers raise as well. No fallback to the
  full dataset takes place.
\<close>

theorem missing_attribute_propagates:
  assumes "v \<noteq> ''None''"
  shows "(map_of (sv_node (scaling_vars self)) v = None
            \<longrightarrow> callback_size_nodes env self g v = Inl (KeyError (PStr v)))
       \<and> (map_of (sv_edge (scaling_vars self)) v = None
            \<longrightarrow> callback_size_edges env self g v = Inl (KeyError (PStr v)))
       \<and> ((\<forall>n \<in> set (nodes (data self)). isl (node_get n v))
            \<longrightarrow> callback_color_nodes env self g v = Inl (KeyError (PStr v)))
       \<and> ((\<forall>e \<in> set (edges (data self)). isl (edge_get e v))
            \<longrightarrow> callback_color_edges env self g v = Inl (KeyError (PStr v)))
       \<and> ((\<exists>n \<in> set (nodes (data self)). isl (node_get n v))
            \<longrightarrow> isl (callback_size_nodes env self g v) \<and> isl (callback_color_nodes env self g v))
       \<and> ((\<exists>e \<in> set (edges (data self)). isl (edge_get e v))
            \<longrightarrow> isl (callback_size_edges env self g v) \<and> isl (callback_color_edges env self g v))"
proof (intro conjI impI)
  assume "map_of (sv_node (scaling_vars self)) v = None"
  with assms show "callback_size_nodes env self g v = Inl (KeyError (PStr v))"
    by (rule size_nodes_table)
next
  assume "map_of (sv_edge (scaling_vars self)) v = None"
  with assms show "callback_size_edges env self g v = Inl (KeyError (PStr v))"
    by (rule size_edges_table)
next
  assume "\<forall>n \<in> set (nodes (data self)). isl (node_get n v)"
  with assms show "callback_color_nodes env self g v = Inl (KeyError (PStr v))"
    by (rule color_nodes_column)
next
  assume "\<forall>e \<in> set (edges (data self)). isl (edge_get e v)"
  with assms show "callback_color_edges env self g v = Inl (KeyError (PStr v))"
    by (rule color_edges_column)
next
  assume "\<exists>n \<in> set (nodes (data self)). isl (node_get n v)"
  then obtain n where n: "n \<in> set (nodes (data self))" "isl (node_get n v)" by blast
  from assms n show "isl (callback_size_nodes env self g v)" by (rule size_nodes_record)
  from assms n show "isl (callback_color_nodes env self g v)" by (rule color_nodes_record)
next
  assume "\<exists>e \<in> set (edges (data self)). isl (edge_get e v)"
  then obtain ed where ed: "ed \<in> set (edges (data self))" "isl (edge_get ed v)" by blast
  from assms ed show "isl (callback_size_edges env self g v)" by (rule size_edges_record)
  from assms ed show "isl (callback_color_edges env self g v)" by (rule color_edges_record)
qed

theorem missing_attribute_propagates_witness:
  "''height'' \<noteq> ''None''
   \<and> map_of (sv_node (scaling_vars example_jaal)) ''height'' = None
   \<and> callback_size_nodes example_env example_jaal example_graph ''height''
       = Inl (KeyError (PStr ''height''))
   \<and> callback_size_edges example_env example_jaal example_graph ''height''
       = Inl (KeyError (PStr ''height''))"
proof -
  have ne: "''height'' \<noteq> ''None''" by simp
  have "map_of (sv_node (scaling_vars example_jaal)) ''height'' = None"
    and "map_of (sv_edge (scaling_vars example_jaal)) ''height'' = None"
    by (simp_all add: example_defs)
  with missing_attribute_propagates[OF ne, of example_jaal example_env example_graph] ne
  show ?thesis by simp
qed

text \<open>
  C5, as the claim states it, fails: colouring the nodes by an attribute that no node has
  raises, and returns no snapshot.
\<close>

theorem color_missing_attribute_raises:
  "callback_color_nodes example_env example_jaal example_graph ''height''
     = Inl (KeyError (PStr ''height''))"
  by (simp add: example_defs handler_defs)

text \<open>
  C1. With bounds whose minimum equals the maximum the scaling divides by zero: in the
  example every node has the weight 5 and the bounds are (5, 5), every edge has the weight 3
  and the bounds are (3, 3), and both size handlers raise \<open>ZeroDivisionError\<close>.
\<close>

theorem size_equal_bounds_raises:
  "callback_size_nodes example_env example_jaal example_graph ''weight'' = Inl ZeroDivisionError
   \<and> callback_size_edges example_env example_jaal example_graph ''weight'' = Inl ZeroDivisionError"
  by (simp add: example_defs handler_defs)

end
